theory Spec2Isabelle
  imports Main "HOL-Library.AList"
begin

section \<open>Values, maps and slices of the Go program\<close>

text \<open>
  A value held in an \<open>interface{}\<close>. \<open>VNum\<close> stands for a \<open>float64\<close>: numbers are only
  ever compared for equality here. \<open>VUUID\<close> and \<open>VTime\<close> are \<open>uuid.UUID\<close> and
  \<open>time.Time\<close>, carrying the text that their JSON encoding writes. \<open>VFunc\<close> is a value
  that \<open>json.Marshal\<close> rejects. A Go map with string keys is an association list with
  distinct keys; the order of the list is one order in which \<open>range\<close> may visit the map.
\<close>

datatype val =
    VNil
  | VBool bool
  | VNum int
  | VStr string
  | VArr "val list"
  | VMap "(string \<times> val) list"
  | VUUID string
  | VTime string
  | VFunc

type_synonym obj = "(string \<times> val) list"

text \<open>A slice is either nil or a sequence of elements.\<close>

datatype 'a slice = Nil_slice | Slice "'a list"

fun elems :: "'a slice \<Rightarrow> 'a list" where
  "elems Nil_slice = []"
| "elems (Slice xs) = xs"

text \<open>The global slice after its cells were rewritten or its length was set again:
  a nil slice stays nil.\<close>

fun reslice :: "'a slice \<Rightarrow> 'a list \<Rightarrow> 'a slice" where
  "reslice Nil_slice xs = Nil_slice"
| "reslice (Slice _) xs = Slice xs"

text \<open>\<open>append(s, xs...)\<close>: with nothing to add, the slice (nil or not) is returned as it is.\<close>

definition append_slice :: "'a slice \<Rightarrow> 'a list \<Rightarrow> 'a slice" where
  "append_slice s xs = (if xs = [] then s else Slice (elems s @ xs))"

text \<open>The argument of \<open>Collection\<close> and \<open>Insert\<close>, by its \<open>reflect.Kind\<close>: nil, a string,
  a struct (type name, exported fields under their JSON keys), a map, or any other kind.
  A struct with a \<open>MarshalJSON\<close> of its own is not among them.\<close>

datatype arg =
    Nil_arg
  | Str_arg string
  | Struct_arg string obj
  | Map_arg obj
  | Other_arg

datatype error =
    Panic string
  | OneParamsNil
  | InsertParamKind
  | JsonError
  | FilterParamsNil
  | RecordNotFound
  | ErrorFindingFile
  | InvalidJsonFile

subsection \<open>JSON round trip\<close>

text \<open>\<open>json_ok v\<close>: \<open>json.Marshal\<close> accepts \<open>v\<close>. \<open>json_norm v\<close>: what
  \<open>json.Unmarshal\<close> gives back from the text written for \<open>v\<close>.\<close>

fun json_ok :: "val \<Rightarrow> bool" where
  "json_ok VFunc = False"
| "json_ok (VArr xs) = list_all json_ok xs"
| "json_ok (VMap kvs) = list_all (\<lambda>kv. json_ok (snd kv)) kvs"
| "json_ok _ = True"

fun json_norm :: "val \<Rightarrow> val" where
  "json_norm (VUUID u) = VStr u"
| "json_norm (VTime t) = VStr t"
| "json_norm (VArr xs) = VArr (map json_norm xs)"
| "json_norm (VMap kvs) = VMap (map (\<lambda>kv. (fst kv, json_norm (snd kv))) kvs)"
| "json_norm v = v"

definition norm_obj :: "obj \<Rightarrow> obj" where
  "norm_obj kvs = map (\<lambda>kv. (fst kv, json_norm (snd kv))) kvs"

definition obj_ok :: "obj \<Rightarrow> bool" where
  "obj_ok kvs = list_all (\<lambda>kv. json_ok (snd kv)) kvs"

text \<open>\<open>decode\<close>, on the fields of a struct or of a map.\<close>

definition decode :: "obj \<Rightarrow> error + obj" where
  "decode fs = (if obj_ok fs then Inr (norm_obj fs) else Inl JsonError)"

section \<open>The document store\<close>

record Collection =
  collectionName :: string

record Insert =
  ins_obj :: arg
  ins_collection :: Collection

text \<open>\<open>Insert.One\<close>. The state is \<open>MemgodbStorage\<close>; \<open>uid\<close> is what \<open>uuid.New()\<close> returns and
  \<open>now\<close> what \<open>time.Now()\<close> returns.\<close>

definition set_field :: "string \<Rightarrow> val \<Rightarrow> obj \<Rightarrow> obj" where
  "set_field k v m = AList.update k v m"

definition inject :: "string \<Rightarrow> string \<Rightarrow> string \<Rightarrow> obj \<Rightarrow> obj" where
  "inject c uid now objMap =
     set_field ''updatedAt'' VNil
       (set_field ''createdAt'' (VTime now)
         (set_field ''id'' (VUUID uid)
           (set_field ''colName'' (VStr c) objMap)))"

definition Insert_One :: "val slice \<Rightarrow> Insert \<Rightarrow> string \<Rightarrow> string \<Rightarrow> (error + obj) \<times> val slice" where
  "Insert_One st i uid now =
     (case ins_obj i of
        Nil_arg \<Rightarrow> (Inl OneParamsNil, st)
      | Str_arg _ \<Rightarrow> (Inl InsertParamKind, st)
      | Other_arg \<Rightarrow> (Inl InsertParamKind, st)
      | Struct_arg _ fs \<Rightarrow>
          (case decode fs of
             Inl e \<Rightarrow> (Inl e, st)
           | Inr objMap \<Rightarrow>
               (let m = inject (collectionName (ins_collection i)) uid now objMap
                in (Inr m, append_slice st [VMap m])))
      | Map_arg fs \<Rightarrow>
          (case decode fs of
             Inl e \<Rightarrow> (Inl e, st)
           | Inr objMap \<Rightarrow>
               (let m = inject (collectionName (ins_collection i)) uid now objMap
                in (Inr m, append_slice st [VMap m]))))"


subsection \<open>Comparison of interface values\<close>

datatype dynType = TNil | TBool | TFloat | TString | TSlice | TMap | TUUID | TTime | TFunc

fun typeOf :: "val \<Rightarrow> dynType" where
  "typeOf VNil = TNil"
| "typeOf (VBool _) = TBool"
| "typeOf (VNum _) = TFloat"
| "typeOf (VStr _) = TString"
| "typeOf (VArr _) = TSlice"
| "typeOf (VMap _) = TMap"
| "typeOf (VUUID _) = TUUID"
| "typeOf (VTime _) = TTime"
| "typeOf VFunc = TFunc"

fun comparable :: "dynType \<Rightarrow> bool" where
  "comparable TSlice = False"
| "comparable TMap = False"
| "comparable TFunc = False"
| "comparable _ = True"

text \<open>\<open>a == b\<close> on two \<open>interface{}\<close> values: \<open>None\<close> is the run-time panic on two values
  of the same uncomparable type; values of different dynamic types are unequal.\<close>

definition eq_iface :: "val \<Rightarrow> val \<Rightarrow> bool option" where
  "eq_iface a b =
     (if typeOf a = typeOf b \<and> \<not> comparable (typeOf a) then None else Some (a = b))"

text \<open>\<open>item["colName"] == collectionName\<close>: an interface compared with a string.\<close>

definition colMatch :: "string \<Rightarrow> obj \<Rightarrow> bool" where
  "colMatch c item = (map_of item ''colName'' = Some (VStr c))"

text \<open>The test of the inner loops, for one pair of the filter:
  \<open>item["colName"] == name\<close> and then \<open>v, ok := item[key]; ok && val == v\<close>.\<close>

definition pair_hit :: "string \<Rightarrow> obj \<Rightarrow> string \<times> val \<Rightarrow> bool option" where
  "pair_hit c item kv =
     (if colMatch c item then
        (case map_of item (fst kv) of
           None \<Rightarrow> Some False
         | Some v \<Rightarrow> eq_iface (snd kv) v)
      else Some False)"

subsection \<open>decodeMany on the storage\<close>

text \<open>An element of the storage read back into a \<open>map[string]interface{}\<close>: an object, or
  null (a nil map, which reads as the empty map); anything else is an unmarshal error.\<close>

fun as_map :: "val \<Rightarrow> obj option" where
  "as_map (VMap kvs) = Some (norm_obj kvs)"
| "as_map VNil = Some []"
| "as_map _ = None"

fun as_maps :: "val list \<Rightarrow> obj list option" where
  "as_maps [] = Some []"
| "as_maps (x # xs) =
     (case as_map x of
        None \<Rightarrow> None
      | Some m \<Rightarrow> (case as_maps xs of None \<Rightarrow> None | Some ms \<Rightarrow> Some (m # ms)))"

definition decodeMany :: "val slice \<Rightarrow> error + obj slice" where
  "decodeMany st =
     (if \<not> list_all json_ok (elems st) then Inl JsonError
      else case st of
        Nil_slice \<Rightarrow> Inr Nil_slice
      | Slice xs \<Rightarrow> (case as_maps xs of None \<Rightarrow> Inl JsonError | Some ms \<Rightarrow> Inr (Slice ms)))"

subsection \<open>Filter\<close>

record Filter =
  flt_objMaps :: "obj slice"
  flt_filter :: "obj option"
  flt_collection :: Collection

text \<open>\<open>Collection.Filter\<close>; the result \<open>None\<close> is the nil pointer returned when
  \<open>decodeMany\<close> fails. A nil filter is \<open>None\<close>.\<close>

definition Collection_Filter :: "val slice \<Rightarrow> Collection \<Rightarrow> obj option \<Rightarrow> Filter option" where
  "Collection_Filter st c fil =
     (case fil of
        None \<Rightarrow> Some \<lparr>flt_objMaps = Nil_slice, flt_filter = None, flt_collection = c\<rparr>
      | Some p \<Rightarrow>
          (case decodeMany st of
             Inl e \<Rightarrow> None
           | Inr ms \<Rightarrow> Some \<lparr>flt_objMaps = ms, flt_filter = Some p, flt_collection = c\<rparr>))"

text \<open>The inner loop of \<open>First\<close>, which leaves at the first pair that hits: \<open>Some True\<close>
  when a pair hit, \<open>None\<close> when a comparison panicked before.\<close>

fun first_pairs :: "string \<Rightarrow> obj \<Rightarrow> obj \<Rightarrow> bool option" where
  "first_pairs c item [] = Some False"
| "first_pairs c item (kv # ps) =
     (case pair_hit c item kv of
        None \<Rightarrow> None
      | Some True \<Rightarrow> Some True
      | Some False \<Rightarrow> first_pairs c item ps)"

text \<open>The outer loop of \<open>First\<close> over \<open>(notFound, foundObj, counter)\<close>.\<close>

fun first_items :: "string \<Rightarrow> obj \<Rightarrow> obj list \<Rightarrow> bool \<times> obj \<times> nat \<Rightarrow> (bool \<times> obj \<times> nat) option" where
  "first_items c p [] s = Some s"
| "first_items c p (item # items) (notFound, foundObj, counter) =
     (case first_pairs c item p of
        None \<Rightarrow> None
      | Some True \<Rightarrow>
          (if counter < 1 then first_items c p items (False, item, counter + 1)
           else first_items c p items (notFound, foundObj, counter))
      | Some False \<Rightarrow> first_items c p items (notFound, foundObj, counter))"

definition nil_deref :: error where
  "nil_deref = Panic ''invalid memory address or nil pointer dereference''"

text \<open>Any other run-time panic: a comparison of two uncomparable values, an index or a
  slice bound out of range. The process ends; the model keeps the storage of before.\<close>

definition runtime_panic :: error where
  "runtime_panic = Panic ''runtime error''"

text \<open>The pairs of a filter, in the order \<open>range\<close> visits them; a nil map has none.\<close>

fun pairs_of :: "obj option \<Rightarrow> obj" where
  "pairs_of None = []"
| "pairs_of (Some p) = p"

definition Filter_First :: "Filter option \<Rightarrow> error + obj" where
  "Filter_First fo =
     (case fo of
        None \<Rightarrow> Inl nil_deref
      | Some f \<Rightarrow>
          (case flt_objMaps f of
             Nil_slice \<Rightarrow> Inl FilterParamsNil
           | Slice items \<Rightarrow>
               (case first_items (collectionName (flt_collection f)) (pairs_of (flt_filter f))
                       items (True, [], 0) of
                  None \<Rightarrow> Inl runtime_panic
                | Some (notFound, foundObj, counter) \<Rightarrow>
                    (if notFound then Inl RecordNotFound else Inr foundObj))))"

text \<open>The inner loop of \<open>All\<close> over \<open>(notFound, foundObj)\<close>: no \<open>break\<close>, the item is
  appended once for each pair that hits.\<close>

fun all_pairs :: "string \<Rightarrow> obj \<Rightarrow> obj \<Rightarrow> bool \<times> obj list \<Rightarrow> (bool \<times> obj list) option" where
  "all_pairs c item [] s = Some s"
| "all_pairs c item (kv # ps) (notFound, foundObj) =
     (case pair_hit c item kv of
        None \<Rightarrow> None
      | Some True \<Rightarrow> all_pairs c item ps (False, foundObj @ [item])
      | Some False \<Rightarrow> all_pairs c item ps (notFound, foundObj))"

fun all_items :: "string \<Rightarrow> obj \<Rightarrow> obj list \<Rightarrow> bool \<times> obj list \<Rightarrow> (bool \<times> obj list) option" where
  "all_items c p [] s = Some s"
| "all_items c p (item # items) s =
     (case all_pairs c item p s of
        None \<Rightarrow> None
      | Some s' \<Rightarrow> all_items c p items s')"

text \<open>\<open>Filter.All\<close>; with nil \<open>objMaps\<close> it reads the whole storage back through JSON.\<close>

definition Filter_All :: "val slice \<Rightarrow> Filter option \<Rightarrow> error + obj slice" where
  "Filter_All st fo =
     (case fo of
        None \<Rightarrow> Inl nil_deref
      | Some f \<Rightarrow>
          (case flt_objMaps f of
             Nil_slice \<Rightarrow> decodeMany st
           | Slice items \<Rightarrow>
               (case all_items (collectionName (flt_collection f)) (pairs_of (flt_filter f))
                       items (True, []) of
                  None \<Rightarrow> Inl runtime_panic
                | Some (notFound, foundObj) \<Rightarrow>
                    (if notFound then Inl RecordNotFound else Inr (Slice foundObj)))))"


subsection \<open>Delete\<close>

record Delete =
  del_objMaps :: "obj slice"
  del_filter :: "obj option"
  del_collection :: Collection

definition Collection_Delete :: "val slice \<Rightarrow> Collection \<Rightarrow> obj option \<Rightarrow> Delete option" where
  "Collection_Delete st c fil =
     (case fil of
        None \<Rightarrow> Some \<lparr>del_objMaps = Nil_slice, del_filter = None, del_collection = c\<rparr>
      | Some p \<Rightarrow>
          (case decodeMany st of
             Inl e \<Rightarrow> None
           | Inr ms \<Rightarrow> Some \<lparr>del_objMaps = ms, del_filter = Some p, del_collection = c\<rparr>))"

text \<open>
  While \<open>Delete.One\<close> runs, \<open>MemgodbStorage\<close> is a window \<open>(arr, len)\<close> on its backing
  array: \<open>arr\<close> holds the cells that were in use when the call began (the loop never
  reaches beyond them) and \<open>len\<close> is the current length.
  \<open>append(s[:index], s[index+1:]...)\<close> moves the tail one cell down inside the array and
  leaves the last cell as it was; \<open>s[:index]\<close> only sets the length, also beyond the
  current one. \<open>Collection.Delete\<close> decodes one item for each cell, so \<open>index\<close> stays
  below \<open>length arr\<close>; a bound beyond \<open>arr\<close> (only possible when the storage was replaced
  between \<open>Delete\<close> and \<open>One\<close>) counts as a panic.
\<close>

definition remove_at :: "nat \<Rightarrow> val list \<times> nat \<Rightarrow> (val list \<times> nat) option" where
  "remove_at index s =
     (case s of (arr, len) \<Rightarrow>
        if int index < int len - 1
        then Some (take index arr @ drop (index + 1) (take len arr) @ drop (len - 1) arr, len - 1)
        else if index \<le> length arr then Some (arr, index)
        else None)"

text \<open>The loop of \<open>Delete.One\<close> over \<open>(notFound, arr, len)\<close>, at \<open>index\<close>. The \<open>break\<close>
  leaves the inner loop only, and \<open>index--\<close> changes a variable that \<open>range\<close> sets again.\<close>

fun delete_items :: "string \<Rightarrow> obj \<Rightarrow> nat \<Rightarrow> obj list \<Rightarrow> bool \<times> val list \<times> nat
    \<Rightarrow> (bool \<times> val list \<times> nat) option" where
  "delete_items c p index [] s = Some s"
| "delete_items c p index (item # items) (notFound, w) =
     (case first_pairs c item p of
        None \<Rightarrow> None
      | Some True \<Rightarrow>
          (case remove_at index w of
             None \<Rightarrow> None
           | Some w' \<Rightarrow> delete_items c p (index + 1) items (False, w'))
      | Some False \<Rightarrow> delete_items c p (index + 1) items (notFound, w))"

definition Delete_One :: "val slice \<Rightarrow> Delete option \<Rightarrow> error option \<times> val slice" where
  "Delete_One st d_opt =
     (case d_opt of
        None \<Rightarrow> (Some nil_deref, st)
      | Some d \<Rightarrow>
          (case del_objMaps d of
             Nil_slice \<Rightarrow> (Some FilterParamsNil, st)
           | Slice items \<Rightarrow>
               (case delete_items (collectionName (del_collection d)) (pairs_of (del_filter d))
                       0 items (True, elems st, length (elems st)) of
                  None \<Rightarrow> (Some runtime_panic, st)
                | Some (notFound, arr, len) \<Rightarrow>
                    (if notFound then (Some RecordNotFound, reslice st (take len arr))
                     else (None, reslice st (take len arr))))))"

subsection \<open>Update\<close>

record Update =
  upd_objMaps :: "obj slice"
  upd_filter :: "obj option"
  upd_update :: "obj option"
  upd_collection :: Collection

definition Collection_Update :: "val slice \<Rightarrow> Collection \<Rightarrow> obj option \<Rightarrow> obj option \<Rightarrow> Update option" where
  "Collection_Update st c fil ob =
     (case fil of
        None \<Rightarrow> Some \<lparr>upd_objMaps = Nil_slice, upd_filter = None, upd_update = ob,
                      upd_collection = c\<rparr>
      | Some p \<Rightarrow>
          (case decodeMany st of
             Inl e \<Rightarrow> None
           | Inr ms \<Rightarrow> Some \<lparr>upd_objMaps = ms, upd_filter = Some p, upd_update = ob,
                              upd_collection = c\<rparr>))"

text \<open>\<open>for _, updateValue := range u.update { item[key] = updateValue; counter++; break }\<close>:
  the value of the first pair that \<open>range\<close> visits goes under \<open>key\<close>, the key of the
  filter pair that hit.\<close>

fun apply_update :: "string \<Rightarrow> obj \<Rightarrow> obj \<times> nat \<Rightarrow> obj \<times> nat" where
  "apply_update key [] (item, counter) = (item, counter)"
| "apply_update key (u # us) (item, counter) = (set_field key (snd u) item, counter + 1)"

text \<open>The inner loop of \<open>Update.One\<close> over \<open>(item, notFound, counter, storage)\<close>;
  \<open>now\<close> is what \<open>time.Now()\<close> returns.\<close>

fun update_pairs :: "string \<Rightarrow> obj \<Rightarrow> string \<Rightarrow> nat \<Rightarrow> obj \<Rightarrow> obj \<times> bool \<times> nat \<times> val list
    \<Rightarrow> (obj \<times> bool \<times> nat \<times> val list) option" where
  "update_pairs c upd now index [] s = Some s"
| "update_pairs c upd now index (kv # ps) (item, notFound, counter, storage) =
     (case pair_hit c item kv of
        None \<Rightarrow> None
      | Some False \<Rightarrow> update_pairs c upd now index ps (item, notFound, counter, storage)
      | Some True \<Rightarrow>
          (let (item1, counter1) =
                 (if counter < 1
                  then (case apply_update (fst kv) upd (item, counter) of
                          (i, n) \<Rightarrow> (set_field ''updatedAt'' (VTime now) i, n))
                  else (item, counter))
           in if index < length storage
              then update_pairs c upd now index ps
                     (item1, False, counter1, storage[index := VMap item1])
              else None))"

fun update_items :: "string \<Rightarrow> obj \<Rightarrow> obj \<Rightarrow> string \<Rightarrow> nat \<Rightarrow> obj list \<Rightarrow> bool \<times> nat \<times> val list
    \<Rightarrow> (bool \<times> nat \<times> val list) option" where
  "update_items c p upd now index [] s = Some s"
| "update_items c p upd now index (item # items) (notFound, counter, storage) =
     (case update_pairs c upd now index p (item, notFound, counter, storage) of
        None \<Rightarrow> None
      | Some (item', notFound', counter', storage') \<Rightarrow>
          update_items c p upd now (index + 1) items (notFound', counter', storage'))"

definition Update_One :: "val slice \<Rightarrow> Update option \<Rightarrow> string \<Rightarrow> error option \<times> val slice" where
  "Update_One st u_opt now =
     (case u_opt of
        None \<Rightarrow> (Some nil_deref, st)
      | Some u \<Rightarrow>
          (case upd_objMaps u of
             Nil_slice \<Rightarrow> (Some FilterParamsNil, st)
           | Slice items \<Rightarrow>
               (case update_items (collectionName (upd_collection u)) (pairs_of (upd_filter u))
                       (pairs_of (upd_update u)) now 0 items (True, 0, elems st) of
                  None \<Rightarrow> (Some runtime_panic, st)
                | Some (notFound, counter, storage) \<Rightarrow>
                    (if notFound then (Some RecordNotFound, reslice st storage)
                     else (None, reslice st storage)))))"


subsection \<open>Persist and LoadDefault\<close>

text \<open>The file \<open>./memgodbstorage.json\<close>: absent, not JSON, or JSON text, given by the value
  it parses to. Failures of the file system while writing are not modelled, nor is the
  flag \<open>persistMemgodbData\<close>, which nothing here reads.\<close>

datatype sink = NoFile | Garbage | Json val

definition Persist :: "val slice \<Rightarrow> sink \<Rightarrow> error option \<times> sink" where
  "Persist st f =
     (case st of
        Nil_slice \<Rightarrow> (None, f)
      | Slice xs \<Rightarrow>
          (if list_all json_ok xs then (None, Json (VArr (map json_norm xs)))
           else (Some JsonError, f)))"

definition LoadDefault :: "val slice \<Rightarrow> sink \<Rightarrow> error option \<times> val slice" where
  "LoadDefault st f =
     (case f of
        NoFile \<Rightarrow> (Some ErrorFindingFile, st)
      | Garbage \<Rightarrow> (Some InvalidJsonFile, st)
      | Json v \<Rightarrow>
          (case json_norm v of
             VArr xs \<Rightarrow> (None, append_slice st xs)
           | VMap kvs \<Rightarrow> (None, append_slice st [VMap kvs])
           | VNil \<Rightarrow> (Some nil_deref, st)
           | _ \<Rightarrow> (None, st)))"

subsection \<open>Collection\<close>

text \<open>\<open>Memgodb.Collection\<close>; \<open>ToLower\<close> is \<open>strings.ToLower\<close>. The result \<open>Inl\<close> is a panic.
  For nil, \<open>reflect.ValueOf(col).IsZero()\<close> panics itself; any other value passes the first
  check, whose second conjunct is \<open>col == nil\<close>.\<close>

definition pluralize :: "string \<Rightarrow> string" where
  "pluralize colName =
     (if length colName > 0 \<and> [colName ! (length colName - 1)] \<noteq> ''s''
      then colName @ ''s'' else colName)"

definition Memgodb_Collection :: "(string \<Rightarrow> string) \<Rightarrow> arg \<Rightarrow> error + Collection" where
  "Memgodb_Collection ToLower col =
     (case col of
        Nil_arg \<Rightarrow> Inl (Panic ''reflect: call of reflect.Value.IsZero on zero Value'')
      | Struct_arg name fs \<Rightarrow> Inr \<lparr>collectionName = pluralize (ToLower name)\<rparr>
      | Str_arg s \<Rightarrow> Inr \<lparr>collectionName = pluralize (ToLower s)\<rparr>
      | Map_arg fs \<Rightarrow> Inl (Panic ''Collection must either be a [string] or an [object]'')
      | Other_arg \<Rightarrow> Inl (Panic ''Collection must either be a [string] or an [object]''))"

text \<open>\<open>strings.ToLower\<close> on ASCII text, for the examples.\<close>

definition lower_char :: "char \<Rightarrow> char" where
  "lower_char ch =
     (if (65::nat) \<le> of_char ch \<and> (of_char ch :: nat) \<le> 90
      then char_of ((of_char ch :: nat) + 32) else ch)"

definition ascii_lower :: "string \<Rightarrow> string" where
  "ascii_lower s = map lower_char s"

section \<open>The TTL store\<close>

text \<open>Modelled from the spec: the declarations of the types \<open>Memdis\<close> and \<open>MemdisData\<close>
  are not among the sources. The storage is a sequence of maps from a key to a value with
  its expiry time; the fields are named as \<open>memdis.go\<close> uses them. A time is a count of
  nanoseconds, a duration a difference of two.\<close>

record MemdisData =
  Value :: val
  Duration :: int

type_synonym cache = "string \<rightharpoonup> MemdisData"

record Memdis =
  storage :: "cache list"

datatype memdis_error = errKeyNotFound | errKeyExists

text \<open>The first loop of \<open>Set\<close>: is the key in some map of the storage?\<close>

fun key_exists :: "cache list \<Rightarrow> string \<Rightarrow> bool" where
  "key_exists [] key = False"
| "key_exists (cache # cs) key = (if cache key \<noteq> None then True else key_exists cs key)"

text \<open>The second loop: the first of the variadic durations, or zero.\<close>

fun first_ttl :: "int list \<Rightarrow> int" where
  "first_ttl [] = 0"
| "first_ttl (v # vs) = v"

definition Memdis_Set :: "Memdis \<Rightarrow> string \<Rightarrow> val \<Rightarrow> int list \<Rightarrow> int \<Rightarrow> memdis_error option \<times> Memdis" where
  "Memdis_Set md key value duration now =
     (if key_exists (storage md) key then (Some errKeyExists, md)
      else (None, md\<lparr>storage := storage md @
                       [[key \<mapsto> \<lparr>Value = value, Duration = now + first_ttl duration\<rparr>]]\<rparr>))"

definition Memdis_KeyValuePairs :: "Memdis \<Rightarrow> (string \<rightharpoonup> val) list" where
  "Memdis_KeyValuePairs md = map (\<lambda>v. map_option Value \<circ> v) (storage md)"

definition Memdis_SetMany :: "Memdis \<Rightarrow> cache list \<Rightarrow> ((string \<rightharpoonup> val) list \<times> memdis_error option) \<times> Memdis" where
  "Memdis_SetMany md data =
     (let md' = md\<lparr>storage := storage md @ data\<rparr>
      in ((Memdis_KeyValuePairs md', None), md'))"

fun get_scan :: "cache list \<Rightarrow> string \<Rightarrow> memdis_error + val" where
  "get_scan [] key = Inl errKeyNotFound"
| "get_scan (cache # cs) key =
     (case cache key of Some d \<Rightarrow> Inr (Value d) | None \<Rightarrow> get_scan cs key)"

definition Memdis_Get :: "Memdis \<Rightarrow> string \<Rightarrow> memdis_error + val" where
  "Memdis_Get md key = get_scan (storage md) key"


section \<open>The matching rule\<close>





section \<open>Example records\<close>

text \<open>A decoded record, and three records as \<open>Insert.One\<close> stores them.\<close>

definition john :: obj where
  "john = [(''colName'', VStr ''users''), (''name'', VStr ''John''), (''age'', VNum 35)]"

definition rec_john :: val where
  "rec_john = VMap [(''name'', VStr ''John''), (''age'', VNum 35), (''colName'', VStr ''users''),
     (''id'', VUUID ''u1''), (''createdAt'', VTime ''t1''), (''updatedAt'', VNil)]"

definition rec_jane :: val where
  "rec_jane = VMap [(''name'', VStr ''Jane''), (''age'', VNum 35), (''colName'', VStr ''users''),
     (''id'', VUUID ''u2''), (''createdAt'', VTime ''t2''), (''updatedAt'', VNil)]"

definition rec_ann :: val where
  "rec_ann = VMap [(''name'', VStr ''Ann''), (''age'', VNum 40), (''colName'', VStr ''users''),
     (''id'', VUUID ''u3''), (''createdAt'', VTime ''t3''), (''updatedAt'', VNil)]"

definition users :: Collection where
  "users = \<lparr>collectionName = ''users''\<rparr>"

section \<open>Properties of the TTL store\<close>

lemma key_exists_iff: "key_exists cs k = (\<exists>c\<in>set cs. k \<in> dom c)"
  by (induction cs) auto

lemma get_scan_append_Inr: "get_scan cs k = Inr v \<Longrightarrow> get_scan (cs @ ds) k = Inr v"
  by (induction cs) (auto split: option.splits)

lemma get_scan_miss: "\<not> key_exists cs k \<Longrightarrow> get_scan (cs @ ds) k = get_scan ds k"
  by (induction cs) (auto split: option.splits if_splits)

lemma filter_miss: "\<not> key_exists cs k \<Longrightarrow> filter (\<lambda>c. k \<in> dom c) cs = []"
  by (induction cs) (auto split: if_splits)

text \<open>
  C8. \<open>Set\<close> returns \<open>errKeyExists\<close> exactly when some map of the storage holds the key, and
  then leaves the storage as it is; otherwise it appends one map holding the value and the
  expiry time \<open>now + ttl\<close>. A second \<open>Set\<close> of the same key fails in either case.
\<close>

theorem Set_KeyExists:
  "(fst (Memdis_Set md k v d now) = Some errKeyExists \<longleftrightarrow> (\<exists>c\<in>set (storage md). k \<in> dom c)) \<and>
   (fst (Memdis_Set md k v d now) = Some errKeyExists \<longrightarrow> snd (Memdis_Set md k v d now) = md) \<and>
   (fst (Memdis_Set md k v d now) \<noteq> Some errKeyExists \<longrightarrow>
      Memdis_Set md k v d now =
        (None, md\<lparr>storage := storage md @ [[k \<mapsto> \<lparr>Value = v, Duration = now + first_ttl d\<rparr>]]\<rparr>)) \<and>
   fst (Memdis_Set (snd (Memdis_Set md k v d now)) k v2 d2 now2) = Some errKeyExists"
  by (simp add: Memdis_Set_def key_exists_iff)

theorem Set_KeyExists_witness:
  "fst (Memdis_Set \<lparr>storage = []\<rparr> ''k'' (VNum 1) [5] 100) \<noteq> Some errKeyExists \<and>
   Memdis_Set \<lparr>storage = []\<rparr> ''k'' (VNum 1) [5] 100 =
     (None, \<lparr>storage = [[''k'' \<mapsto> \<lparr>Value = VNum 1, Duration = 105\<rparr>]]\<rparr>) \<and>
   (\<exists>c\<in>set (storage \<lparr>storage = [[''k'' \<mapsto> \<lparr>Value = VNum 1, Duration = 105\<rparr>]]\<rparr>). ''k'' \<in> dom c) \<and>
   fst (Memdis_Set \<lparr>storage = [[''k'' \<mapsto> \<lparr>Value = VNum 1, Duration = 105\<rparr>]]\<rparr> ''k'' (VNum 2) [] 200)
     = Some errKeyExists"
  using Set_KeyExists [of "\<lparr>storage = []\<rparr>" "''k''" "VNum 1" "[5]" 100 "VNum 2" "[]" 200]
    Set_KeyExists [of "\<lparr>storage = [[''k'' \<mapsto> \<lparr>Value = VNum 1, Duration = 105\<rparr>]]\<rparr>" "''k''"
      "VNum 2" "[]" 200]
  by (simp add: Memdis_Set_def)

text \<open>
  C10. \<open>SetMany\<close> returns no error and appends all the given maps, with no look at the keys
  already stored. After a successful \<open>Set\<close> of \<open>k\<close>, a batch adds one more entry with \<open>k\<close>
  for each of its maps that has \<open>k\<close>, and \<open>Get\<close> still returns the value of the entry
  stored first.
\<close>

theorem SetMany_no_check:
  "snd (fst (Memdis_SetMany md data)) = None \<and>
   storage (snd (Memdis_SetMany md data)) = storage md @ data \<and>
   fst (fst (Memdis_SetMany md data)) = Memdis_KeyValuePairs (snd (Memdis_SetMany md data)) \<and>
   (\<forall>w. Memdis_Get md k = Inr w \<longrightarrow> Memdis_Get (snd (Memdis_SetMany md data)) k = Inr w) \<and>
   (fst (Memdis_Set md k v d now) = None \<longrightarrow>
      (let md1 = snd (Memdis_Set md k v d now);
           md2 = snd (Memdis_SetMany md1 data)
       in length (filter (\<lambda>c. k \<in> dom c) (storage md2))
            = 1 + length (filter (\<lambda>c. k \<in> dom c) data) \<and>
          Memdis_Get md2 k = Inr v))"
  by (auto simp: Memdis_SetMany_def Memdis_Set_def Memdis_Get_def Let_def get_scan_miss filter_miss
      get_scan_append_Inr split: if_splits)

theorem SetMany_no_check_witness:
  "fst (Memdis_Set \<lparr>storage = []\<rparr> ''k'' (VNum 1) [] 0) = None \<and>
   length (filter (\<lambda>c. ''k'' \<in> dom c)
     (storage (snd (Memdis_SetMany (snd (Memdis_Set \<lparr>storage = []\<rparr> ''k'' (VNum 1) [] 0))
        [[''k'' \<mapsto> \<lparr>Value = VNum 2, Duration = 7\<rparr>]])))) = 2 \<and>
   Memdis_Get (snd (Memdis_SetMany (snd (Memdis_Set \<lparr>storage = []\<rparr> ''k'' (VNum 1) [] 0))
        [[''k'' \<mapsto> \<lparr>Value = VNum 2, Duration = 7\<rparr>]])) ''k'' = Inr (VNum 1)"
  using SetMany_no_check [of "\<lparr>storage = []\<rparr>" "[[''k'' \<mapsto> \<lparr>Value = VNum 2, Duration = 7\<rparr>]]"
      "''k''" "VNum 1" "[]" 0]
  by (simp add: Memdis_Set_def Let_def)


section \<open>Properties of the document store\<close>

subsection \<open>Insert\<close>





text \<open>
  C9. When \<open>Insert.One\<close> returns an error, the storage is the one of before the call.
\<close>

theorem Insert_One_error_keeps_store:
  "fst (Insert_One st i uid now) = Inl e \<Longrightarrow> snd (Insert_One st i uid now) = st"
  by (cases "ins_obj i") (auto simp: Insert_One_def decode_def Let_def split: if_splits)

theorem Insert_One_error_keeps_store_witness:
  "fst (Insert_One (Slice [VNum 1])
          \<lparr>ins_obj = Map_arg [(''f'', VFunc)], ins_collection = \<lparr>collectionName = ''users''\<rparr>\<rparr>
          ''u1'' ''t1'') = Inl JsonError \<and>
   snd (Insert_One (Slice [VNum 1])
          \<lparr>ins_obj = Map_arg [(''f'', VFunc)], ins_collection = \<lparr>collectionName = ''users''\<rparr>\<rparr>
          ''u1'' ''t1'') = Slice [VNum 1]"
proof -
  have h: "fst (Insert_One (Slice [VNum 1])
          \<lparr>ins_obj = Map_arg [(''f'', VFunc)], ins_collection = \<lparr>collectionName = ''users''\<rparr>\<rparr>
          ''u1'' ''t1'') = Inl JsonError"
    by (simp add: Insert_One_def decode_def obj_ok_def)
  from h Insert_One_error_keeps_store [OF h] show ?thesis by (rule conjI)
qed

subsection \<open>Filter\<close>






















subsection \<open>Update\<close>

lemmas ex_defs = rec_john_def rec_jane_def rec_ann_def users_def

text \<open>
  C2. Two records of \<open>users\<close> have \<open>age\<close> 35; the update \<open>{name: Bob}\<close> under the
  predicate \<open>{age: 35}\<close> changes the first of them only, but what it writes is the value
  \<open>Bob\<close> under the key \<open>age\<close> of the predicate: \<open>name\<close> stays \<open>John\<close>. Both records
  are written back in the form \<open>decodeMany\<close> read them in.
\<close>

theorem Update_One_writes_under_filter_key:
  "Update_One (Slice [rec_john, rec_jane])
     (Collection_Update (Slice [rec_john, rec_jane]) users
        (Some [(''age'', VNum 35)]) (Some [(''name'', VStr ''Bob'')])) ''t9''
   = (None, Slice
       [VMap [(''name'', VStr ''John''), (''age'', VStr ''Bob''), (''colName'', VStr ''users''),
              (''id'', VStr ''u1''), (''createdAt'', VStr ''t1''), (''updatedAt'', VTime ''t9'')],
        VMap [(''name'', VStr ''Jane''), (''age'', VNum 35), (''colName'', VStr ''users''),
              (''id'', VStr ''u2''), (''createdAt'', VStr ''t2''), (''updatedAt'', VNil)]])"
  by (simp add: Update_One_def Collection_Update_def decodeMany_def norm_obj_def ex_defs
      pair_hit_def colMatch_def eq_iface_def set_field_def Let_def)

subsection \<open>Delete\<close>

text \<open>
  C3. Of three records of \<open>users\<close> the first two have \<open>age\<close> 35. \<open>Delete.One\<close> with the
  predicate \<open>{age: 35}\<close> goes on after the first removal: at index 1 it cuts the storage,
  by then \<open>[Jane, Ann]\<close>, to length 1. Two records are gone, one of them no match, and
  the second match is still stored.
\<close>

theorem Delete_One_removes_two:
  "Delete_One (Slice [rec_john, rec_jane, rec_ann])
     (Collection_Delete (Slice [rec_john, rec_jane, rec_ann]) users (Some [(''age'', VNum 35)]))
   = (None, Slice [rec_jane])"
  by (simp add: Delete_One_def Collection_Delete_def decodeMany_def norm_obj_def ex_defs
      pair_hit_def colMatch_def eq_iface_def remove_at_def)

subsection \<open>All on a storage that is nil\<close>

text \<open>
  C5. On the nil storage, \<open>decodeMany\<close> gives a nil \<open>objMaps\<close> also for a predicate that
  is not nil, and \<open>All\<close> takes the branch of the nil predicate: it returns the (nil)
  storage and no error. On the empty storage that is not nil the same call reports
  "record not found", and \<open>First\<close> on the nil storage returns an error.
\<close>

theorem Filter_All_nil_storage:
  "Filter_All Nil_slice (Collection_Filter Nil_slice users (Some [(''age'', VNum 35)]))
     = Inr Nil_slice \<and>
   Filter_All (Slice []) (Collection_Filter (Slice []) users (Some [(''age'', VNum 35)]))
     = Inl RecordNotFound \<and>
   Filter_First (Collection_Filter Nil_slice users (Some [(''age'', VNum 35)]))
     = Inl FilterParamsNil"
  by (simp add: Filter_All_def Filter_First_def Collection_Filter_def decodeMany_def)

subsection \<open>Collection\<close>

text \<open>
  C7. The empty string is not refused: \<open>Collection("")\<close> returns a handle whose name is
  empty.
\<close>

theorem Collection_empty_text:
  "Memgodb_Collection ascii_lower (Str_arg []) = Inr \<lparr>collectionName = []\<rparr>"
  by (simp add: Memgodb_Collection_def ascii_lower_def pluralize_def)

subsection \<open>Persist and LoadDefault\<close>

lemma json_norm_idem: "json_norm (json_norm v) = json_norm v"
  by (induction v) auto

text \<open>
  C6, as the code has it. \<open>Persist\<close> on the nil storage returns no error and leaves the
  file as it is. On a storage that is not nil and whose records \<open>json.Marshal\<close> accepts, it
  writes the JSON forms of the records; \<open>LoadDefault\<close> then appends exactly these to the
  storage it is given, so that a nil storage holds them, in order, afterwards.
\<close>

theorem Persist_LoadDefault_roundtrip:
  "Persist Nil_slice f = (None, f) \<and>
   (list_all json_ok xs \<longrightarrow>
      Persist (Slice xs) f = (None, Json (VArr (map json_norm xs))) \<and>
      LoadDefault st (snd (Persist (Slice xs) f)) = (None, append_slice st (map json_norm xs)) \<and>
      elems (snd (LoadDefault Nil_slice (snd (Persist (Slice xs) f)))) = map json_norm xs)"
  by (simp add: Persist_def LoadDefault_def json_norm_idem append_slice_def)

theorem Persist_LoadDefault_roundtrip_witness:
  "list_all json_ok [rec_john, rec_jane] \<and>
   Persist (Slice [rec_john, rec_jane]) NoFile
     = (None, Json (VArr [json_norm rec_john, json_norm rec_jane])) \<and>
   elems (snd (LoadDefault Nil_slice (snd (Persist (Slice [rec_john, rec_jane]) NoFile))))
     = [json_norm rec_john, json_norm rec_jane]"
proof -
  have h: "list_all json_ok [rec_john, rec_jane]"
    by (simp add: rec_john_def rec_jane_def)
  note t = Persist_LoadDefault_roundtrip [of NoFile "[rec_john, rec_jane]" Nil_slice,
      THEN conjunct2, THEN mp, OF h]
  have "map json_norm [rec_john, rec_jane] = [json_norm rec_john, json_norm rec_jane]"
    by simp
  with h t show ?thesis by metis
qed

text \<open>
  C6 as stated fails. With the nil storage \<open>Persist\<close> writes nothing, and \<open>LoadDefault\<close>
  into a nil storage then brings back the snapshot that was in the file before: the
  storage had no record, and has one afterwards. And on the empty storage that is not
  nil, \<open>Persist\<close> is not a no-op: it creates the file.
\<close>

theorem Persist_nil_keeps_old_snapshot:
  "elems (snd (LoadDefault Nil_slice (snd (Persist Nil_slice (Json (VArr [VMap john]))))))
     \<noteq> map json_norm (elems Nil_slice) \<and>
   snd (Persist (Slice []) NoFile) \<noteq> NoFile"
  by (simp add: Persist_def LoadDefault_def append_slice_def john_def)

end
